theory Spec2Isabelle
  imports Main "HOL-Library.AList"
begin

section \<open>JavaScript values\<close>

text \<open>
  The values the router builds and reads: the JSON values, and \<open>JMember n\<close>, the member
  of \<open>Object.prototype\<close> of the name \<open>n\<close>, which a read \<open>obj[n]\<close> reaches through the
  prototype chain when the object has no own key \<open>n\<close> (a function; for \<open>__proto__\<close> the
  prototype itself). An object is the association list of its own keys in insertion order;
  \<open>AList.update\<close> is the assignment \<open>obj[k] = v\<close> (an existing key keeps its place, a new
  key goes last). \<open>undefined\<close> is \<open>None\<close> of \<open>json option\<close>.

  Two things stay outside: the key \<open>__proto__\<close> as the target of an assignment (names
  that begin with two underscores are reserved in GraphQL, so no field, argument or type of
  a schema has one), and the sharing of objects: a property written onto an object that
  other places hold too (an entry of \<open>sofa.enumTypes\<close>, a member of \<open>Object.prototype\<close>)
  is written onto the value at hand.
\<close>

datatype json =
  JNull
  | JBool bool
  | JNum int
  | JStr string
  | JArr "json list"
  | JObj "(string \<times> json) list"
  | JMember string

type_synonym obj = "(string \<times> json) list"

fun truthy :: "json \<Rightarrow> bool" where
  "truthy JNull = False"
| "truthy (JBool b) = b"
| "truthy (JNum n) = (n \<noteq> 0)"
| "truthy (JStr s) = (s \<noteq> [])"
| "truthy (JArr xs) = True"
| "truthy (JObj kvs) = True"
| "truthy (JMember m) = True"

text \<open>
  The names of the members of \<open>Object.prototype\<close>, the read \<open>obj[name]\<close> of an ordinary
  object (an object literal, the result of \<open>JSON.parse\<close>) and the test \<open>name in obj\<close>.
\<close>

definition objectPrototype :: "string list" where
  "objectPrototype =
     [''constructor'', ''__defineGetter__'', ''__defineSetter__'', ''hasOwnProperty'',
      ''__lookupGetter__'', ''__lookupSetter__'', ''isPrototypeOf'', ''propertyIsEnumerable'',
      ''toString'', ''valueOf'', ''__proto__'', ''toLocaleString'']"

definition readProperty :: "obj \<Rightarrow> string \<Rightarrow> json option" where
  "readProperty ob name =
     (case map_of ob name of
        Some v \<Rightarrow> Some v
      | None \<Rightarrow> if name \<in> set objectPrototype then Some (JMember name) else None)"

definition inObject :: "string \<Rightarrow> obj \<Rightarrow> bool" where
  "inObject name ob = (map_of ob name \<noteq> None \<or> name \<in> set objectPrototype)"

text \<open>A function: \<open>JSON.stringify\<close> gives \<open>undefined\<close> for it, as for \<open>undefined\<close>.\<close>

fun isFunction :: "json \<Rightarrow> bool" where
  "isFunction (JMember m) = (m \<noteq> ''__proto__'')"
| "isFunction v = False"

text \<open>The decimal text of a number, for the index keys of arrays and strings.\<close>

function show_nat :: "nat \<Rightarrow> string" where
  "show_nat n =
     (if n < 10 then [char_of (48 + n)] else show_nat (n div 10) @ [char_of (48 + n mod 10)])"
  by pat_completeness auto
termination
  by (relation "measure id") auto

text \<open>
  The own enumerable properties of a value, as the spread \<open>{...v}\<close> copies them: the
  entries of an object, the elements of an array and the characters of a string under
  their indices, nothing of any other value.
\<close>

fun entries :: "json \<Rightarrow> obj" where
  "entries (JObj kvs) = kvs"
| "entries (JArr xs) = zip (map show_nat [0..<length xs]) xs"
| "entries (JStr s) = zip (map show_nat [0..<length s]) (map (\<lambda>c. JStr [c]) s)"
| "entries v = []"

text \<open>\<open>Object.assign(target, source)\<close> and the spread \<open>{...target, ...source}\<close>.\<close>

fun assign :: "('k \<times> 'v) list \<Rightarrow> ('k \<times> 'v) list \<Rightarrow> ('k \<times> 'v) list" where
  "assign target [] = target"
| "assign target ((k, v) # kvs) = assign (AList.update k v target) kvs"

text \<open>A string that is truthy: defined and not empty.\<close>

fun truthy_str :: "string option \<Rightarrow> bool" where
  "truthy_str None = False"
| "truthy_str (Some s) = (s \<noteq> [])"

section \<open>The schema type graph\<close>

text \<open>
  A GraphQL type as \<open>resolveFieldType\<close> reads it: the wrappers \<open>NonNull\<close> and \<open>List\<close>
  around a named type. Of the named type the code reads the kind (\<open>isObjectType\<close>,
  \<open>isScalarType\<close>, \<open>isEnumType\<close>), the name, the enum values and
  \<open>extensions.jsonSchema\<close>; the fields of the named type are reached through the type
  map only, so a reference holds no fields and two types may refer to each other.
\<close>

datatype type_kind = ObjectKind | InputObjectKind | ScalarKind | EnumKind | InterfaceKind | UnionKind

record named_type =
  nt_kind :: type_kind
  nt_name :: string
  nt_values :: "string list"
  nt_jsonSchema :: "obj option"

datatype gql_type =
  NonNullType gql_type
  | ListType gql_type
  | NamedType named_type

fun isNonNullType :: "gql_type \<Rightarrow> bool" where
  "isNonNullType (NonNullType t) = True"
| "isNonNullType t = False"

record gql_arg =
  arg_name :: string
  arg_type :: gql_type

record gql_field =
  field_name :: string
  field_type :: gql_type
  field_description :: "string option"
  field_args :: "gql_arg list"

text \<open>
  A named type of the type map (\<open>schema.getTypeMap()\<close>): \<open>td_fields\<close> is
  \<open>type.getFields()\<close> in declaration order, empty for a type without fields.
\<close>

record type_def =
  td_kind :: type_kind
  td_name :: string
  td_description :: "string option"
  td_fields :: "gql_field list"

text \<open>The AST type of an operation variable (\<open>variable.type\<close>).\<close>

datatype type_node =
  NON_NULL_TYPE type_node
  | LIST_TYPE type_node
  | NAMED_TYPE string

section \<open>open-api/utils\<close>

text \<open>
  \<open>mapToPrimitive\<close> reads \<open>formatMap[type]\<close>, an object literal: for the name of a member
  of \<open>Object.prototype\<close> it gives that member, which is truthy and no schema.
\<close>

definition formatMap :: obj where
  "formatMap =
     [(''Int'', JObj [(''type'', JStr ''integer''), (''format'', JStr ''int32'')]),
      (''Float'', JObj [(''type'', JStr ''number''), (''format'', JStr ''float'')]),
      (''String'', JObj [(''type'', JStr ''string'')]),
      (''Boolean'', JObj [(''type'', JStr ''boolean'')]),
      (''ID'', JObj [(''type'', JStr ''string'')])]"

definition mapToPrimitive :: "string \<Rightarrow> json option" where
  "mapToPrimitive t = readProperty formatMap t"

definition mapToRef :: "string \<Rightarrow> string" where
  "mapToRef t = ''#/components/schemas/'' @ t"

text \<open>
  The nodes \<open>addExampleFromDirective\<close> is called with. \<open>getDirective\<close> (of
  @graphql-tools/utils) and the JavaScript conversions \<open>String\<close>, \<open>Number\<close>,
  \<open>parseInt\<close> and the regular-expression test are the platform's: they are parameters,
  held in the options next to the caller's \<open>exampleDirectiveParser\<close>. \<open>sofa.enumTypes\<close>
  is built in ./sofa, which is not among the sources: its entries are taken to be schema
  objects, as those \<open>resolveEnumTypes\<close> of open-api/operations builds.
\<close>

datatype node =
  FieldNode gql_field
  | TypeNode gql_type
  | TypeDefNode type_def
  | ArgNode gql_arg
  | AstNode type_node

record sofa_opts =
  customScalars :: obj
  enumTypes :: "(string \<times> obj) list"
  exampleDirective :: "string option"
  exampleDirectiveParser :: "(json list \<Rightarrow> json option) option"
  getDirective :: "node \<Rightarrow> string \<Rightarrow> json list option"
  jsString :: "json \<Rightarrow> json"
  jsNumber :: "json \<Rightarrow> json"
  jsBooleanTest :: "json \<Rightarrow> json"
  jsParseInt :: "json \<Rightarrow> json"

definition convertExample :: "sofa_opts \<Rightarrow> json option \<Rightarrow> json \<Rightarrow> json" where
  "convertExample opts ty example =
     (if ty = Some (JStr ''string'') then jsString opts example
      else if ty = Some (JStr ''number'') then jsNumber opts example
      else if ty = Some (JStr ''boolean'') then jsBooleanTest opts example
      else if ty = Some (JStr ''integer'') then jsParseInt opts example
      else example)"

text \<open>
  \<open>addExampleFromDirective\<close>, first up to its last early return: the example the parser
  gives for the directive of the node, \<open>None\<close> where the component is returned as it is.
  The component is any value a caller holds as a schema; \<open>component.type\<close> and the spread
  read its own properties.
\<close>

definition directiveExample :: "sofa_opts \<Rightarrow> node \<Rightarrow> json option" where
  "directiveExample opts nd =
     (case exampleDirectiveParser opts of
        None \<Rightarrow> None
      | Some parser \<Rightarrow>
          if \<not> truthy_str (exampleDirective opts) then None
          else
            (case getDirective opts nd (the (exampleDirective opts)) of
               None \<Rightarrow> None
             | Some directive \<Rightarrow>
                 (case parser directive of
                    None \<Rightarrow> None
                  | Some example \<Rightarrow> if \<not> truthy example then None else Some example)))"

definition addExampleFromDirective :: "sofa_opts \<Rightarrow> json \<Rightarrow> node \<Rightarrow> json" where
  "addExampleFromDirective opts component nd =
     (case directiveExample opts nd of
        None \<Rightarrow> component
      | Some example \<Rightarrow>
          JObj (AList.update ''example''
                  (convertExample opts (map_of (entries component) ''type'') example)
                  (entries component)))"

section \<open>open-api/types\<close>

text \<open>
  \<open>opts.customScalars[name]\<close> as a condition: the value read is truthy. For the name of
  a member of \<open>Object.prototype\<close> that is no own key, the value read is that member.
\<close>

definition isCustomScalar :: "sofa_opts \<Rightarrow> string \<Rightarrow> bool" where
  "isCustomScalar opts n =
     (case readProperty (customScalars opts) n of None \<Rightarrow> False | Some v \<Rightarrow> truthy v)"

definition ref :: "string \<Rightarrow> obj" where
  "ref n = [(''$ref'', JStr (mapToRef n))]"

fun resolveFieldType :: "sofa_opts \<Rightarrow> gql_type \<Rightarrow> obj" where
  "resolveFieldType opts (NonNullType t) = resolveFieldType opts t"
| "resolveFieldType opts (ListType t) =
     [(''type'', JStr ''array''),
      (''items'', addExampleFromDirective opts (JObj (resolveFieldType opts t)) (TypeNode t))]"
| "resolveFieldType opts (NamedType n) =
     (if isCustomScalar opts (nt_name n) then ref (nt_name n)
      else if nt_kind n = ObjectKind then ref (nt_name n)
      else if nt_kind n = ScalarKind then
        (case mapToPrimitive (nt_name n) of
           Some resolved \<Rightarrow> entries resolved
         | None \<Rightarrow> (case nt_jsonSchema n of Some resolved \<Rightarrow> resolved
                     | None \<Rightarrow> [(''type'', JStr ''object'')]))
      else if nt_kind n = EnumKind then
        [(''type'', JStr ''string''), (''enum'', JArr (map JStr (nt_values n)))]
      else [(''type'', JStr ''object'')])"

definition resolveField :: "sofa_opts \<Rightarrow> gql_field \<Rightarrow> obj" where
  "resolveField opts field = resolveFieldType opts (field_type field)"

text \<open>
  One turn of the loop of \<open>buildSchemaObjectFromType\<close> over \<open>type.getFields()\<close>: the
  state is the pair of \<open>required\<close> and \<open>properties\<close>.
\<close>

definition fieldProperty :: "sofa_opts \<Rightarrow> gql_field \<Rightarrow> obj" where
  "fieldProperty opts field =
     (let p = resolveField opts field;
          p = (if truthy_str (field_description field)
               then AList.update ''description'' (JStr (the (field_description field))) p else p)
      in entries (addExampleFromDirective opts (JObj p) (FieldNode field)))"

fun fieldsLoop :: "sofa_opts \<Rightarrow> gql_field list \<Rightarrow> string list \<times> obj \<Rightarrow> string list \<times> obj" where
  "fieldsLoop opts [] acc = acc"
| "fieldsLoop opts (field # rest) (required, properties) =
     fieldsLoop opts rest
       (if isNonNullType (field_type field) then required @ [field_name field] else required,
        AList.update (field_name field) (JObj (fieldProperty opts field)) properties)"

definition buildSchemaObjectFromType :: "sofa_opts \<Rightarrow> type_def \<Rightarrow> obj" where
  "buildSchemaObjectFromType opts ty =
     (case fieldsLoop opts (td_fields ty) ([], []) of
        (required, properties) \<Rightarrow>
          [(''type'', JStr ''object'')]
          @ (if required \<noteq> [] then [(''required'', JArr (map JStr required))] else [])
          @ [(''properties'', JObj properties)]
          @ (if truthy_str (td_description ty)
             then [(''description'', JStr (the (td_description ty)))] else []))"

section \<open>router: the components of the document\<close>

text \<open>
  \<open>isIntrospectionType\<close> of graphql-js: the type is one of the eight introspection types,
  compared by name.
\<close>

definition isIntrospectionType :: "type_def \<Rightarrow> bool" where
  "isIntrospectionType ty =
     (td_name ty \<in> set [''__Schema'', ''__Directive'', ''__DirectiveLocation'', ''__Type'',
                          ''__Field'', ''__InputValue'', ''__EnumValue'', ''__TypeKind''])"

text \<open>
  The loop of \<open>createRouter\<close> over the type map (lines 105 to 137), one type per turn;
  the state is \<open>components.schemas\<close>. A key whose value is \<open>undefined\<close> (the description
  of a custom scalar that has none) is left out, as in the serialised document.
\<close>

definition customScalarComponent :: "sofa_opts \<Rightarrow> type_def \<Rightarrow> json" where
  "customScalarComponent opts ty =
     addExampleFromDirective opts
       (JObj (assign (case td_description ty of None \<Rightarrow> [] | Some d \<Rightarrow> [(''description'', JStr d)])
                (case readProperty (customScalars opts) (td_name ty) of
                   None \<Rightarrow> []
                 | Some v \<Rightarrow> entries v)))
       (TypeDefNode ty)"

fun componentsLoop :: "sofa_opts \<Rightarrow> type_def list \<Rightarrow> obj \<Rightarrow> obj" where
  "componentsLoop opts [] schemas = schemas"
| "componentsLoop opts (ty # types) schemas =
     componentsLoop opts types
       (if (td_kind ty = ObjectKind \<or> td_kind ty = InputObjectKind) \<and> \<not> isIntrospectionType ty
        then AList.update (td_name ty) (JObj (buildSchemaObjectFromType opts ty)) schemas
        else if \<not> isIntrospectionType ty \<and> isCustomScalar opts (td_name ty)
        then AList.update (td_name ty) (customScalarComponent opts ty) schemas
        else schemas)"

section \<open>router: the error-handling policy\<close>

text \<open>
  What a handler can throw or an execution can report: an error object with its message
  and its \<open>extensions\<close> (of which \<open>http\<close> is the hint the policy reads), or a value that
  is not an object.
\<close>

record http_ext =
  http_status :: "int option"
  http_headers :: "(string \<times> string) list option"

record extensions =
  ext_http :: "http_ext option"
  ext_other :: obj

record error_object =
  err_message :: string
  err_extensions :: "extensions option"

datatype thrown = ErrorObject error_object | NonObject json

text \<open>A \<open>TypeError\<close> of the platform: an error object with a message and no extensions.\<close>

definition TypeError :: "string \<Rightarrow> thrown" where
  "TypeError msg = ErrorObject \<lparr>err_message = msg, err_extensions = None\<rparr>"

text \<open>
  The value given to \<open>Response.json\<close>: a JSON value (\<open>None\<close> is \<open>undefined\<close>) or the
  envelope \<open>{ errors }\<close>.
\<close>

datatype body = Json "json option" | Errors "thrown list"

record response =
  res_status :: int
  res_statusText :: "string option"
  res_headers :: "(string \<times> string) list"
  res_body :: body

text \<open>\<open>error.extensions?.http\<close>, for an error that is a non-null object.\<close>

fun httpOf :: "thrown \<Rightarrow> http_ext option" where
  "httpOf (NonObject v) = None"
| "httpOf (ErrorObject e) = (case err_extensions e of None \<Rightarrow> None | Some x \<Rightarrow> ext_http x)"

text \<open>\<open>delete error.extensions.http\<close>.\<close>

fun deleteHttp :: "thrown \<Rightarrow> thrown" where
  "deleteHttp (NonObject v) = NonObject v"
| "deleteHttp (ErrorObject e) =
     ErrorObject (e\<lparr>err_extensions := map_option (\<lambda>x. x\<lparr>ext_http := None\<rparr>) (err_extensions e)\<rparr>)"

text \<open>The two updates of one turn of the loop, for an error that carries a hint.\<close>

definition nextStatus :: "int option \<Rightarrow> http_ext \<Rightarrow> int option" where
  "nextStatus status h =
     (case http_status h of
        None \<Rightarrow> status
      | Some s \<Rightarrow>
          if s \<noteq> 0 \<and> (case status of None \<Rightarrow> True | Some c \<Rightarrow> c = 0 \<or> s > c)
          then Some s else status)"

definition nextHeaders :: "(string \<times> string) list \<Rightarrow> http_ext \<Rightarrow> (string \<times> string) list" where
  "nextHeaders headers h =
     (case http_headers h of None \<Rightarrow> headers | Some hs \<Rightarrow> assign headers hs)"

fun errorsLoop ::
  "thrown list \<Rightarrow> int option \<times> (string \<times> string) list \<times> thrown list
     \<Rightarrow> int option \<times> (string \<times> string) list \<times> thrown list" where
  "errorsLoop [] acc = acc"
| "errorsLoop (error # rest) (status, headers, seen) =
     errorsLoop rest
       (case httpOf error of
          None \<Rightarrow> (status, headers, seen @ [error])
        | Some h \<Rightarrow> (nextStatus status h, nextHeaders headers h, seen @ [deleteHttp error]))"

definition defaultErrorHandler :: "thrown list \<Rightarrow> response" where
  "defaultErrorHandler errors =
     (case errorsLoop errors
             (None, [(''Content-Type'', ''application/json; charset=utf-8'')], []) of
        (status, headers, errors') \<Rightarrow>
          \<lparr>res_status = (case status of None \<Rightarrow> 500 | Some s \<Rightarrow> if s = 0 then 500 else s),
           res_statusText = None,
           res_headers = headers,
           res_body = Errors errors'\<rparr>)"

definition useRequestBody :: "string \<Rightarrow> bool" where
  "useRequestBody method = (method = ''POST'' \<or> method = ''PUT'' \<or> method = ''PATCH'')"

section \<open>router: the route of a root field\<close>

text \<open>
  An entry of \<open>sofa.routes\<close>, every part optional, and the route derived from it.
  \<open>convertName\<close> (of ./common) is not among the sources: it is a parameter.
\<close>

record route_config =
  rc_method :: "string option"
  rc_path :: "string option"
  rc_responseStatus :: "int option"
  rc_tags :: "string list option"
  rc_description :: "string option"

record route =
  rt_method :: string
  rt_path :: string
  rt_responseStatus :: int

definition getPath :: "(string \<Rightarrow> string) \<Rightarrow> string \<Rightarrow> bool \<Rightarrow> string" where
  "getPath convertName fieldName hasId =
     ''/'' @ convertName fieldName @ (if hasId then ''/:id'' else [])"

fun isObjectType :: "gql_type \<Rightarrow> bool" where
  "isObjectType (NamedType n) = (nt_kind n = ObjectKind)"
| "isObjectType t = False"

definition isSingle :: "gql_type \<Rightarrow> bool" where
  "isSingle fieldType =
     (isObjectType fieldType
      \<or> (case fieldType of NonNullType ofType \<Rightarrow> isObjectType ofType | _ \<Rightarrow> False))"

definition hasIdArgument :: "gql_field \<Rightarrow> bool" where
  "hasIdArgument field = (\<exists>arg \<in> set (field_args field). arg_name arg = ''id'')"

text \<open>
  The constant \<open>route\<close> of \<open>createQueryRoute\<close> (lines 359 to 372) and of
  \<open>createMutationRoute\<close> (lines 510 to 521); \<open>routes\<close> is \<open>sofa.routes\<close>, empty when it
  is undefined, and \<open>typeName\<close> the name of the root type.
\<close>

definition createQueryRoute ::
  "(string \<Rightarrow> string) \<Rightarrow> (string \<rightharpoonup> route_config) \<Rightarrow> string \<Rightarrow> gql_field \<Rightarrow> route" where
  "createQueryRoute convertName routes typeName field =
     (let routeConfig = routes (typeName @ ''.'' @ field_name field) in
      \<lparr>rt_method = (case Option.bind routeConfig rc_method of Some m \<Rightarrow> m | None \<Rightarrow> ''GET''),
       rt_path = (case Option.bind routeConfig rc_path of Some p \<Rightarrow> p
                  | None \<Rightarrow> getPath convertName (field_name field)
                              (isSingle (field_type field) \<and> hasIdArgument field)),
       rt_responseStatus =
         (case Option.bind routeConfig rc_responseStatus of Some c \<Rightarrow> c | None \<Rightarrow> 200)\<rparr>)"

definition createMutationRoute ::
  "(string \<Rightarrow> string) \<Rightarrow> (string \<rightharpoonup> route_config) \<Rightarrow> string \<Rightarrow> gql_field \<Rightarrow> route" where
  "createMutationRoute convertName routes typeName field =
     (let routeConfig = routes (typeName @ ''.'' @ field_name field) in
      \<lparr>rt_method = (case Option.bind routeConfig rc_method of Some m \<Rightarrow> m | None \<Rightarrow> ''POST''),
       rt_path = (case Option.bind routeConfig rc_path of Some p \<Rightarrow> p
                  | None \<Rightarrow> getPath convertName (field_name field) False),
       rt_responseStatus =
         (case Option.bind routeConfig rc_responseStatus of Some c \<Rightarrow> c | None \<Rightarrow> 200)\<rparr>)"

section \<open>open-api/operations and the schemas of a route\<close>

text \<open>\<open>String.prototype.includes\<close>: the second string occurs in the first.\<close>

fun str_includes :: "string \<Rightarrow> string \<Rightarrow> bool" where
  "str_includes [] t = (t = [])"
| "str_includes (c # s) t = (take (length t) (c # s) = t \<or> str_includes s t)"

definition isInPath :: "string \<Rightarrow> string \<Rightarrow> bool" where
  "isInPath url param = (str_includes url ('':'' @ param) \<or> str_includes url (''{'' @ param @ ''}''))"

record variable_def =
  var_name :: string
  var_type :: type_node

fun isNonNullNode :: "type_node \<Rightarrow> bool" where
  "isNonNullNode (NON_NULL_TYPE t) = True"
| "isNonNullNode t = False"

text \<open>
  \<open>resolveParamSchema\<close> returns what it read: the object of a reference, a format of
  \<open>formatMap\<close> (or the member of \<open>Object.prototype\<close> read there), or the entry of
  \<open>enumTypes\<close> itself.
\<close>

fun resolveParamSchema :: "sofa_opts \<Rightarrow> type_node \<Rightarrow> json" where
  "resolveParamSchema opts (NON_NULL_TYPE t) = resolveParamSchema opts t"
| "resolveParamSchema opts (LIST_TYPE t) =
     JObj [(''type'', JStr ''array''),
           (''items'', addExampleFromDirective opts (resolveParamSchema opts t) (AstNode t))]"
| "resolveParamSchema opts (NAMED_TYPE n) =
     (if isCustomScalar opts n then JObj (ref n)
      else
        (case mapToPrimitive n of
           Some resolved \<Rightarrow> resolved
         | None \<Rightarrow>
             (case map_of (enumTypes opts) n of
                None \<Rightarrow> JObj (ref n)
              | Some e \<Rightarrow> JObj e)))"

text \<open>
  \<open>schema.description = d\<close>, where \<open>d\<close> may be \<open>undefined\<close>: an undefined description is
  a key the serialised document does not have. \<open>resolveVariableDescription\<close> reads the
  schema's syntax tree through graphql-js: it is the parameter \<open>describe\<close>, from the
  variable's name.
\<close>

definition setDescription :: "string option \<Rightarrow> obj \<Rightarrow> obj" where
  "setDescription d schema =
     (case d of None \<Rightarrow> AList.delete ''description'' schema
      | Some text \<Rightarrow> AList.update ''description'' (JStr text) schema)"

text \<open>
  The assignment \<open>varSchema.description = d\<close> of \<open>getRouteSchemas\<close>. The source writes
  onto the object \<open>resolveParamSchema\<close> returned, which for an enum is the entry of
  \<open>sofa.enumTypes\<close>, shared by every variable of that enum and by every route; here the
  description is written onto the value of this variable. On a member of
  \<open>Object.prototype\<close> the property is written onto that member and is no part of the value.
\<close>

fun describeSchema :: "string option \<Rightarrow> json \<Rightarrow> json" where
  "describeSchema d (JObj schema) = JObj (setDescription d schema)"
| "describeSchema d v = v"

record param_group =
  pg_properties :: obj
  pg_required :: "string list"

definition addParam :: "string \<Rightarrow> json \<Rightarrow> bool \<Rightarrow> param_group \<Rightarrow> param_group" where
  "addParam varName varSchema req varObj =
     \<lparr>pg_properties = AList.update varName varSchema (pg_properties varObj),
      pg_required = (if req then pg_required varObj @ [varName] else pg_required varObj)\<rparr>"

definition variableSchema ::
  "sofa_opts \<Rightarrow> (string \<Rightarrow> string option) \<Rightarrow> gql_field \<Rightarrow> variable_def \<Rightarrow> json" where
  "variableSchema opts describe field variable =
     (let varSchema = describeSchema (describe (var_name variable))
                        (resolveParamSchema opts (var_type variable))
      in case find (\<lambda>arg. arg_name arg = var_name variable) (field_args field) of
           None \<Rightarrow> varSchema
         | Some arg \<Rightarrow> addExampleFromDirective opts varSchema (ArgNode arg))"

text \<open>The loop of \<open>getRouteSchemas\<close> over \<open>info.variables\<close>; the state is \<open>(params, query)\<close>.\<close>

fun routeParamsLoop ::
  "sofa_opts \<Rightarrow> (string \<Rightarrow> string option) \<Rightarrow> gql_field \<Rightarrow> string \<Rightarrow> variable_def list
     \<Rightarrow> param_group \<times> param_group \<Rightarrow> param_group \<times> param_group" where
  "routeParamsLoop opts describe field path [] acc = acc"
| "routeParamsLoop opts describe field path (variable # rest) (params, query) =
     routeParamsLoop opts describe field path rest
       (let varSchema = variableSchema opts describe field variable;
            req = isNonNullNode (var_type variable)
        in if isInPath path (var_name variable)
           then (addParam (var_name variable) varSchema req params, query)
           else (params, addParam (var_name variable) varSchema req query))"

fun requestBodyLoop ::
  "sofa_opts \<Rightarrow> (string \<Rightarrow> string option) \<Rightarrow> variable_def list \<Rightarrow> obj \<times> string list
     \<Rightarrow> obj \<times> string list" where
  "requestBodyLoop opts describe [] acc = acc"
| "requestBodyLoop opts describe (variable # rest) (properties, required) =
     requestBodyLoop opts describe rest
       (AList.update (var_name variable)
          (JObj (setDescription (describe (var_name variable))
                   (entries (resolveParamSchema opts (var_type variable)))))
          properties,
        if isNonNullNode (var_type variable) then required @ [var_name variable] else required)"

definition resolveRequestBody ::
  "sofa_opts \<Rightarrow> (string \<Rightarrow> string option) \<Rightarrow> variable_def list option \<Rightarrow> obj" where
  "resolveRequestBody opts describe variables =
     (case variables of
        None \<Rightarrow> []
      | Some vs \<Rightarrow>
          (case requestBodyLoop opts describe vs ([], []) of
             (properties, required) \<Rightarrow>
               [(''type'', JStr ''object''), (''properties'', JObj properties)]
               @ (if required \<noteq> [] then [(''required'', JArr (map JStr required))] else [])))"

text \<open>
  \<open>resolveResponse\<close> looks the operation's root field up in the query or mutation type and
  resolves its type; here the field is given.
\<close>

definition resolveResponse :: "sofa_opts \<Rightarrow> gql_field \<Rightarrow> obj" where
  "resolveResponse opts field = resolveFieldType opts (field_type field)"

record route_schemas =
  rs_json :: "obj option"
  rs_params :: param_group
  rs_query :: param_group
  rs_responses :: "(int \<times> obj) list"

definition getRouteSchemas ::
  "sofa_opts \<Rightarrow> (string \<Rightarrow> string option) \<Rightarrow> gql_field \<Rightarrow> string \<Rightarrow> string
     \<Rightarrow> variable_def list \<Rightarrow> int \<Rightarrow> route_schemas" where
  "getRouteSchemas opts describe field method path variables responseStatus =
     (case routeParamsLoop opts describe field path variables
             (\<lparr>pg_properties = [], pg_required = []\<rparr>, \<lparr>pg_properties = [], pg_required = []\<rparr>) of
        (params, query) \<Rightarrow>
          \<lparr>rs_json = (if useRequestBody method
                      then Some (resolveRequestBody opts describe (Some variables)) else None),
           rs_params = params,
           rs_query = query,
           rs_responses = [(responseStatus, resolveResponse opts field)]\<rparr>)"

text \<open>
  The sibling in open-api/operations, \<open>buildPathFromOperation\<close>: its \<open>parameters\<close> and
  its \<open>requestBody\<close> schema (the other keys of the operation object are left out).
\<close>

record parameter =
  p_in :: string
  p_name :: string
  p_required :: bool
  p_schema :: json
  p_description :: "string option"

definition resolveParameters ::
  "sofa_opts \<Rightarrow> (string \<Rightarrow> string option) \<Rightarrow> string \<Rightarrow> variable_def list option
     \<Rightarrow> parameter list" where
  "resolveParameters opts describe url variables =
     (case variables of
        None \<Rightarrow> []
      | Some vs \<Rightarrow>
          map (\<lambda>variable.
                 \<lparr>p_in = (if isInPath url (var_name variable) then ''path'' else ''query''),
                  p_name = var_name variable,
                  p_required = isNonNullNode (var_type variable),
                  p_schema = resolveParamSchema opts (var_type variable),
                  p_description = describe (var_name variable)\<rparr>) vs)"

definition buildPathFromOperation ::
  "sofa_opts \<Rightarrow> (string \<Rightarrow> string option) \<Rightarrow> string \<Rightarrow> bool \<Rightarrow> variable_def list option
     \<Rightarrow> parameter list \<times> obj option" where
  "buildPathFromOperation opts describe url useBody variables =
     (let pathParams = map_option (filter (\<lambda>v. isInPath url (var_name v))) variables;
          bodyParams = map_option (filter (\<lambda>v. \<not> isInPath url (var_name v))) variables
      in if useBody
         then (resolveParameters opts describe url pathParams,
               Some (resolveRequestBody opts describe bodyParams))
         else (resolveParameters opts describe url variables, None))"

section \<open>router: one request\<close>

text \<open>
  \<open>String.prototype.split\<close> at a one-character separator, and the element at index 1 of
  an array (\<open>undefined\<close> when the array is shorter).
\<close>

fun split :: "char \<Rightarrow> string \<Rightarrow> string list" where
  "split sep [] = [[]]"
| "split sep (c # s) =
     (if c = sep then [] # split sep s
      else (case split sep s of [] \<Rightarrow> [[c]] | w # ws \<Rightarrow> (c # w) # ws))"

fun second :: "'a list \<Rightarrow> 'a option" where
  "second (x # y # ys) = Some y"
| "second xs = None"

text \<open>
  The own properties of a parsed JSON value, as \<open>Object.prototype.hasOwnProperty\<close> and
  the read \<open>body[name]\<close> of an own property see them: the keys of an object; \<open>length\<close>
  and the indices in decimal of an array and of a string; none of a number or a boolean.
\<close>

definition indexOf :: "string \<Rightarrow> nat \<Rightarrow> nat option" where
  "indexOf name len = find (\<lambda>i. show_nat i = name) [0..<len]"

fun getProperty :: "json \<Rightarrow> string \<Rightarrow> json option" where
  "getProperty (JObj kvs) name = map_of kvs name"
| "getProperty (JArr xs) name =
     (if name = ''length'' then Some (JNum (int (length xs)))
      else map_option (\<lambda>i. xs ! i) (indexOf name (length xs)))"
| "getProperty (JStr s) name =
     (if name = ''length'' then Some (JNum (int (length s)))
      else map_option (\<lambda>i. JStr [s ! i]) (indexOf name (length s)))"
| "getProperty v name = None"

text \<open>
  The call \<open>body.hasOwnProperty(name)\<close>. The method is read off the body: a body that is
  an object with an own key \<open>hasOwnProperty\<close> gives the value of that key, which in a
  parsed body is no function, and the call throws a \<open>TypeError\<close> (\<open>msg\<close> is the
  platform's message). Every other body inherits the method of \<open>Object.prototype\<close>.
\<close>

definition hasOwnProperty :: "string \<Rightarrow> json \<Rightarrow> string \<Rightarrow> thrown + bool" where
  "hasOwnProperty msg body name =
     (case body of
        JObj kvs \<Rightarrow>
          if map_of kvs ''hasOwnProperty'' \<noteq> None then Inl (TypeError msg)
          else Inr (map_of kvs name \<noteq> None)
      | _ \<Rightarrow> Inr (getProperty body name \<noteq> None))"

text \<open>
  \<open>pickParam\<close>. \<open>new URLSearchParams(s)\<close> is the platform's: the parameter gives the
  list of its entries, in order (\<open>s\<close> is \<open>undefined\<close> when the url has no question mark).
  \<open>params\<close> is an ordinary object (\<open>request.params || {}\<close>), so \<open>name in params\<close> holds
  for the names of the members of \<open>Object.prototype\<close> too, and \<open>params[name]\<close> is then
  that member.
\<close>

definition getAll :: "(string \<times> string) list \<Rightarrow> string \<Rightarrow> string list" where
  "getAll searchParams name = map snd (filter (\<lambda>kv. fst kv = name) searchParams)"

definition pickParam ::
  "(string option \<Rightarrow> (string \<times> string) list) \<Rightarrow> string \<Rightarrow> string \<Rightarrow> string \<Rightarrow> obj \<Rightarrow> json
     \<Rightarrow> thrown + json option" where
  "pickParam URLSearchParams msg name url params body =
     (if inObject name params then Inr (readProperty params name)
      else
        (let searchParams = URLSearchParams (second (split CHR ''?'' url));
             values = getAll searchParams name
         in if values \<noteq> [] then
              Inr (if length values = 1 then Some (JStr (hd values))
                   else Some (JArr (map JStr values)))
            else if truthy body then
              (case hasOwnProperty msg body name of
                 Inl error \<Rightarrow> Inl error
               | Inr own \<Rightarrow> Inr (if own then getProperty body name else None))
            else Inr None))"

record request =
  rq_url :: string
  rq_body :: "string option"
  rq_params :: "obj option"

record exec_result =
  result_errors :: "thrown list option"
  result_data :: "obj option"

record 'ctx exec_args =
  contextValue :: 'ctx
  variableValues :: obj
  operationName :: "string option"

text \<open>
  What the handler is given by its surroundings: the platform's \<open>JSON.parse\<close> (\<open>None\<close>
  when it throws) and \<open>URLSearchParams\<close>, the text of a thrown value
  (\<open>error.toString()\<close>), the messages of the two \<open>TypeError\<close>s of the platform (a call
  of what is no function, \<open>Response.json\<close> of what has no JSON text), and of \<open>sofa\<close> the
  context factory, \<open>execute\<close> for the route's
  document and the optional \<open>errorHandler\<close>, which is taken to return a response.
  \<open>coerce\<close> is the coercion of a provided value by \<open>parseVariable\<close>. Of a request the
  handler reads the url, the path parameters and the body: \<open>rq_body\<close> is \<open>None\<close> when
  \<open>request.body\<close> is null, and otherwise the text \<open>request.text()\<close> resolves to.
\<close>

record 'ctx sofa_env =
  JSON_parse :: "string \<Rightarrow> json option"
  URLSearchParams :: "string option \<Rightarrow> (string \<times> string) list"
  errorText :: "thrown \<Rightarrow> string"
  notAFunction :: string
  notSerializable :: string
  coerce :: "json \<Rightarrow> variable_def \<Rightarrow> thrown + json option"
  contextFactory :: "request \<Rightarrow> thrown + 'ctx"
  execute :: "'ctx exec_args \<Rightarrow> thrown + exec_result"
  errorHandler :: "(thrown list \<Rightarrow> response) option"

record handler_config =
  cfg_variables :: "variable_def list"
  cfg_operationName :: "string option"
  cfg_route :: route
  cfg_fieldName :: string

text \<open>
  Modelled from the spec: \<open>parseVariable\<close> of ./parse, which is not among the sources.
  The spec: a variable found in none of the three sources is "not provided" and is omitted
  from the variable set; raw values become typed values per the variable's declared type,
  and a value that fails coercion raises a client-input error. The result \<open>None\<close> is
  \<open>undefined\<close>; the coercion itself is the parameter.
\<close>

definition parseVariable ::
  "(json \<Rightarrow> variable_def \<Rightarrow> thrown + json option) \<Rightarrow> json option \<Rightarrow> variable_def
     \<Rightarrow> thrown + json option" where
  "parseVariable coercion val variable =
     (case val of None \<Rightarrow> Inr None | Some v \<Rightarrow> coercion v variable)"

definition createGraphQLError :: "string \<Rightarrow> int \<Rightarrow> thrown" where
  "createGraphQLError msg status =
     ErrorObject
       \<lparr>err_message = msg,
        err_extensions =
          Some \<lparr>ext_http = Some \<lparr>http_status = Some status, http_headers = None\<rparr>,
                ext_other = []\<rparr>\<rparr>"

definition parseBody :: "'ctx sofa_env \<Rightarrow> request \<Rightarrow> thrown + json" where
  "parseBody env request =
     (case rq_body request of
        None \<Rightarrow> Inr (JObj [])
      | Some strBody \<Rightarrow>
          if strBody = [] then Inr (JObj [])
          else (case JSON_parse env strBody of
                  None \<Rightarrow> Inl (createGraphQLError ''POST body sent invalid JSON.'' 400)
                | Some parsed \<Rightarrow> Inr parsed))"

text \<open>
  The reduction over \<open>info.variables\<close>; the state is the variable set so far. What
  \<open>pickParam\<close> or \<open>parseVariable\<close> throws ends the reduction.
\<close>

fun variablesLoop ::
  "'ctx sofa_env \<Rightarrow> request \<Rightarrow> json \<Rightarrow> variable_def list \<Rightarrow> obj \<Rightarrow> thrown + obj" where
  "variablesLoop env request body [] variables = Inr variables"
| "variablesLoop env request body (variable # rest) variables =
     (case pickParam (URLSearchParams env) (notAFunction env) (var_name variable)
             (rq_url request) (case rq_params request of None \<Rightarrow> [] | Some ps \<Rightarrow> ps) body of
        Inl error \<Rightarrow> Inl error
      | Inr val \<Rightarrow>
          (case parseVariable (coerce env) val variable of
             Inl error \<Rightarrow> Inl error
           | Inr None \<Rightarrow> variablesLoop env request body rest variables
           | Inr (Some v) \<Rightarrow>
               variablesLoop env request body rest
                 (AList.update (var_name variable) v variables)))"

text \<open>\<open>error.message || error.toString?.() || error\<close>.\<close>

definition errorMessage :: "'ctx sofa_env \<Rightarrow> thrown \<Rightarrow> string" where
  "errorMessage env error =
     (case error of
        ErrorObject e \<Rightarrow> if err_message e \<noteq> [] then err_message e else errorText env error
      | NonObject v \<Rightarrow> errorText env error)"

definition resolveVariables ::
  "'ctx sofa_env \<Rightarrow> variable_def list \<Rightarrow> request \<Rightarrow> json \<Rightarrow> thrown + obj" where
  "resolveVariables env variables request body =
     (case variablesLoop env request body variables [] of
        Inl error \<Rightarrow> Inl (createGraphQLError (errorMessage env error) 400)
      | Inr vars \<Rightarrow> Inr vars)"

text \<open>
  \<open>Response.json(data, {status})\<close>, as the Fetch standard has it: it throws a
  \<open>TypeError\<close> when \<open>JSON.stringify\<close> gives no text for the data, which is so for
  \<open>undefined\<close> and for a function.
\<close>

definition Response_json :: "string \<Rightarrow> json option \<Rightarrow> int \<Rightarrow> thrown + response" where
  "Response_json msg data status =
     (case data of
        None \<Rightarrow> Inl (TypeError msg)
      | Some v \<Rightarrow>
          if isFunction v then Inl (TypeError msg)
          else Inr \<lparr>res_status = status, res_statusText = None, res_headers = [],
                    res_body = Json (Some v)\<rparr>)"

text \<open>
  \<open>Response.json(result.data?.[fieldName], {status: config.route.responseStatus})\<close>.
  The data of a result is read by own key: the result object of graphql-js has no
  prototype, and where an executor gives an ordinary object, what the read reaches in
  \<open>Object.prototype\<close> for a field it does not hold is a function, for which
  \<open>Response.json\<close> throws as it does for \<open>undefined\<close>.
\<close>

definition respond :: "'ctx sofa_env \<Rightarrow> handler_config \<Rightarrow> exec_result \<Rightarrow> thrown + response" where
  "respond env config result =
     Response_json (notSerializable env)
       (Option.bind (result_data result) (\<lambda>d. map_of d (cfg_fieldName config)))
       (rt_responseStatus (cfg_route config))"

definition useHandler :: "'ctx sofa_env \<Rightarrow> handler_config \<Rightarrow> request \<Rightarrow> response" where
  "useHandler env config request =
     (let handler = (case errorHandler env of Some h \<Rightarrow> h | None \<Rightarrow> defaultErrorHandler) in
      case parseBody env request of
        Inl error \<Rightarrow> handler [error]
      | Inr body \<Rightarrow>
          (case resolveVariables env (cfg_variables config) request body of
             Inl error \<Rightarrow> handler [error]
           | Inr vars \<Rightarrow>
               (case contextFactory env request of
                  Inl error \<Rightarrow> handler [error]
                | Inr ctx \<Rightarrow>
                    (case execute env \<lparr>contextValue = ctx, variableValues = vars,
                                        operationName = cfg_operationName config\<rparr> of
                       Inl error \<Rightarrow> handler [error]
                     | Inr result \<Rightarrow>
                         (case result_errors result of
                            Some errors \<Rightarrow> handler errors
                          | None \<Rightarrow>
                              (case respond env config result of
                                 Inl error \<Rightarrow> handler [error]
                               | Inr res \<Rightarrow> res))))))"

section \<open>router: the batch\<close>

text \<open>
  An item of a batch, the request built from it and what the handler needs: the
  platform's \<open>new URL(path, 'http://localhost')\<close> (which throws on a path that is no
  URL), \<open>JSON.stringify\<close> and the text of a number; the router's \<open>handle\<close>, which
  resolves to a response or rejects; and of a response its status and \<open>res.json()\<close>,
  which rejects when the body is not JSON. \<open>br_search\<close> holds the entries appended to
  \<open>url.searchParams\<close>. The method of an item is \<open>'GET' | 'POST'\<close>, as the handler
  types it.
\<close>

datatype batch_method = GET | POST

record batch_item =
  bi_path :: string
  bi_method :: batch_method
  bi_params :: "obj option"

record batch_request =
  br_href :: string
  br_search :: obj
  br_method :: batch_method
  br_body :: "string option"

record 'res batch_env =
  URL_new :: "string \<Rightarrow> thrown + string"
  JSON_stringify :: "json \<Rightarrow> string"
  numberText :: "int \<Rightarrow> string"
  handle :: "batch_request \<Rightarrow> thrown + 'res"
  status_of :: "'res \<Rightarrow> int"
  json_of :: "'res \<Rightarrow> thrown + json"

definition buildRequest :: "'res batch_env \<Rightarrow> batch_item \<Rightarrow> thrown + batch_request" where
  "buildRequest env item =
     (case URL_new env (bi_path item) of
        Inl error \<Rightarrow> Inl error
      | Inr href \<Rightarrow>
          Inr (case bi_params item of
                 None \<Rightarrow> \<lparr>br_href = href, br_search = [], br_method = bi_method item, br_body = None\<rparr>
               | Some params \<Rightarrow>
                   if bi_method item = GET
                   then \<lparr>br_href = href, br_search = params, br_method = bi_method item,
                         br_body = None\<rparr>
                   else \<lparr>br_href = href, br_search = [], br_method = bi_method item,
                         br_body = Some (JSON_stringify env (JObj params))\<rparr>))"

text \<open>The callback of \<open>body.map\<close>: one item to its \<open>{status, body}\<close>, or a rejection.\<close>

definition dispatch :: "'res batch_env \<Rightarrow> batch_item \<Rightarrow> thrown + int \<times> json" where
  "dispatch env item =
     (case buildRequest env item of
        Inl error \<Rightarrow> Inl error
      | Inr req \<Rightarrow>
          (case handle env req of
             Inl error \<Rightarrow> Inl error
           | Inr res \<Rightarrow>
               (case json_of env res of
                  Inl error \<Rightarrow> Inl error
                | Inr parsed \<Rightarrow> Inr (status_of env res, parsed))))"

text \<open>
  \<open>Promise.all\<close>: the values in the order of the promises when all are fulfilled, a
  rejection when one is rejected (here the first in the order of the input; which one
  the platform reports depends on the order of completion).
\<close>

fun promiseAll :: "(thrown + 'a) list \<Rightarrow> thrown + 'a list" where
  "promiseAll [] = Inr []"
| "promiseAll (Inl error # ps) = Inl error"
| "promiseAll (Inr v # ps) = (case promiseAll ps of Inl error \<Rightarrow> Inl error | Inr vs \<Rightarrow> Inr (v # vs))"

definition responseBody :: "int \<times> json \<Rightarrow> json" where
  "responseBody r = JObj [(''status'', JNum (fst r)), (''body'', snd r)]"

text \<open>The requests that reach \<open>router.handle\<close>: those of the items whose request was built.\<close>

fun handled :: "'res batch_env \<Rightarrow> batch_item list \<Rightarrow> batch_request list" where
  "handled env [] = []"
| "handled env (item # items) =
     (case buildRequest env item of
        Inl error \<Rightarrow> handled env items
      | Inr req \<Rightarrow> req # handled env items)"

text \<open>
  The handler of \<open>/batch\<close>: its response or its rejection, and the requests it gave to
  \<open>router.handle\<close>.
\<close>

definition batchHandler ::
  "'res batch_env \<Rightarrow> int \<Rightarrow> batch_item list \<Rightarrow> (thrown + response) \<times> batch_request list" where
  "batchHandler env limit body =
     (if int (length body) > limit
      then (Inr \<lparr>res_status = 413,
                 res_statusText = Some ''Content Too Large'',
                 res_headers = [],
                 res_body = Json (Some (JObj [(''message'',
                   JStr (''Batching is limited to '' @ numberText env limit
                         @ '' operations per request.''))]))\<rparr>,
            [])
      else
        (case promiseAll (map (dispatch env) body) of
           Inl error \<Rightarrow> Inl error
         | Inr responses \<Rightarrow>
             Inr \<lparr>res_status = 200, res_statusText = None, res_headers = [],
                  res_body = Json (Some (JArr (map responseBody responses)))\<rparr>,
         handled env body))"

section \<open>Notions used in the statements\<close>

text \<open>
  The hints of a list of errors, as the policy reads them: the status of an error is its
  \<open>extensions.http.status\<close> when that is a number other than 0 (0 is falsy), its headers
  are the entries of \<open>extensions.http.headers\<close>.
\<close>

definition statusHint :: "thrown \<Rightarrow> int option" where
  "statusHint error =
     (case httpOf error of
        None \<Rightarrow> None
      | Some h \<Rightarrow> (case http_status h of None \<Rightarrow> None | Some s \<Rightarrow> if s = 0 then None else Some s))"

definition hintedStatuses :: "thrown list \<Rightarrow> int list" where
  "hintedStatuses errors = List.map_filter statusHint errors"

definition headerHint :: "thrown \<Rightarrow> (string \<times> string) list" where
  "headerHint error =
     (case httpOf error of
        None \<Rightarrow> []
      | Some h \<Rightarrow> (case http_headers h of None \<Rightarrow> [] | Some hs \<Rightarrow> hs))"

definition hintedHeaders :: "thrown list \<Rightarrow> (string \<times> string) list" where
  "hintedHeaders errors = concat (map headerHint errors)"

text \<open>The greatest of a status and a list of hints.\<close>

definition maxStatus :: "int option \<Rightarrow> int list \<Rightarrow> int option" where
  "maxStatus status hints =
     (if hints = [] then status
      else (case status of None \<Rightarrow> Some (Max (set hints)) | Some c \<Rightarrow> Some (max c (Max (set hints)))))"


text \<open>The types of the type map that get a component in \<open>createRouter\<close>.\<close>

definition isComponentType :: "sofa_opts \<Rightarrow> type_def \<Rightarrow> bool" where
  "isComponentType opts ty =
     (\<not> isIntrospectionType ty
      \<and> (td_kind ty = ObjectKind \<or> td_kind ty = InputObjectKind \<or> isCustomScalar opts (td_name ty)))"

section \<open>Example data\<close>

definition error400 :: thrown where
  "error400 =
     ErrorObject
       \<lparr>err_message = ''Invalid parameters'',
        err_extensions =
          Some \<lparr>ext_http = Some \<lparr>http_status = Some 400, http_headers = Some [(''X-Reason'', ''input'')]\<rparr>,
                ext_other = []\<rparr>\<rparr>"

definition error404 :: thrown where
  "error404 =
     ErrorObject
       \<lparr>err_message = ''Not found'',
        err_extensions =
          Some \<lparr>ext_http = Some \<lparr>http_status = Some 404, http_headers = Some [(''X-Missing'', ''user'')]\<rparr>,
                ext_other = [(''code'', JStr ''NOT_FOUND'')]\<rparr>\<rparr>"

definition userType :: named_type where
  "userType = \<lparr>nt_kind = ObjectKind, nt_name = ''User'', nt_values = [], nt_jsonSchema = None\<rparr>"

definition idType :: named_type where
  "idType = \<lparr>nt_kind = ScalarKind, nt_name = ''ID'', nt_values = [], nt_jsonSchema = None\<rparr>"

definition userField :: gql_field where
  "userField =
     \<lparr>field_name = ''user'', field_type = NamedType userType, field_description = None,
      field_args = [\<lparr>arg_name = ''id'', arg_type = NonNullType (NamedType idType)\<rparr>]\<rparr>"

definition nameBody :: string where
  "nameBody = ''{'' @ [CHR 0x22] @ ''name'' @ [CHR 0x22] @ '':'' @ [CHR 0x22] @ ''Ann'' @ [CHR 0x22] @ ''}''"

definition exampleEnv :: "unit sofa_env" where
  "exampleEnv =
     \<lparr>JSON_parse = (\<lambda>s. if s = nameBody then Some (JObj [(''name'', JStr ''Ann'')])
                         else if s = ''{}'' then Some (JObj []) else None),
      URLSearchParams = (\<lambda>q. if q = Some ''tag=a&tag=b'' then [(''tag'', ''a''), (''tag'', ''b'')]
                              else if q = Some ''name=Bob'' then [(''name'', ''Bob'')] else []),
      errorText = (\<lambda>error. ''Error''),
      notAFunction = ''body.hasOwnProperty is not a function'',
      notSerializable = ''Value is not JSON serializable'',
      coerce = (\<lambda>v variable. Inr (Some v)),
      contextFactory = (\<lambda>request. Inr ()),
      execute = (\<lambda>args. Inr \<lparr>result_errors = None,
                                result_data = Some [(''user'', JObj (variableValues args))]\<rparr>),
      errorHandler = None\<rparr>"



definition invalidUrl :: thrown where
  "invalidUrl = ErrorObject \<lparr>err_message = ''Invalid URL'', err_extensions = None\<rparr>"

definition boomBody :: json where
  "boomBody = JObj [(''errors'', JArr [JObj [(''message'', JStr ''boom'')]])]"

definition exampleBatchEnv :: "(int \<times> json) batch_env" where
  "exampleBatchEnv =
     \<lparr>URL_new = (\<lambda>path. if path = ''//'' then Inl invalidUrl else Inr (''http://localhost'' @ path)),
      JSON_stringify = (\<lambda>v. nameBody),
      numberText = (\<lambda>n. ''1''),
      handle = (\<lambda>req. if br_href req = ''http://localhost/users'' then Inr (200, JArr [])
                        else Inr (500, boomBody)),
      status_of = fst,
      json_of = (\<lambda>res. Inr (snd res))\<rparr>"

definition usersItem :: batch_item where
  "usersItem = \<lparr>bi_path = ''/users'', bi_method = GET, bi_params = None\<rparr>"

definition boomItem :: batch_item where
  "boomItem = \<lparr>bi_path = ''/boom'', bi_method = POST, bi_params = Some [(''name'', JStr ''Ann'')]\<rparr>"


definition exampleOpts :: sofa_opts where
  "exampleOpts =
     \<lparr>customScalars = [], enumTypes = [], exampleDirective = None,
      exampleDirectiveParser = None, getDirective = (\<lambda>nd name. None),
      jsString = (\<lambda>v. v), jsNumber = (\<lambda>v. v), jsBooleanTest = (\<lambda>v. v), jsParseInt = (\<lambda>v. v)\<rparr>"

definition stringType :: named_type where
  "stringType = \<lparr>nt_kind = ScalarKind, nt_name = ''String'', nt_values = [], nt_jsonSchema = None\<rparr>"

definition userDef :: type_def where
  "userDef =
     \<lparr>td_kind = ObjectKind, td_name = ''User'', td_description = None,
      td_fields =
        [\<lparr>field_name = ''id'', field_type = NonNullType (NamedType idType),
          field_description = None, field_args = []\<rparr>,
         \<lparr>field_name = ''name'', field_type = NamedType stringType,
          field_description = None, field_args = []\<rparr>,
         \<lparr>field_name = ''friend'', field_type = NamedType userType,
          field_description = None, field_args = []\<rparr>]\<rparr>"

definition inputRef :: "string \<Rightarrow> gql_type" where
  "inputRef n = NamedType \<lparr>nt_kind = InputObjectKind, nt_name = n, nt_values = [], nt_jsonSchema = None\<rparr>"

definition objectRef :: "string \<Rightarrow> gql_type" where
  "objectRef n = NamedType \<lparr>nt_kind = ObjectKind, nt_name = n, nt_values = [], nt_jsonSchema = None\<rparr>"

definition inputA :: type_def where
  "inputA =
     \<lparr>td_kind = InputObjectKind, td_name = ''A'', td_description = None,
      td_fields = [\<lparr>field_name = ''b'', field_type = NonNullType (inputRef ''B''),
                    field_description = None, field_args = []\<rparr>]\<rparr>"

definition inputB :: type_def where
  "inputB =
     \<lparr>td_kind = InputObjectKind, td_name = ''B'', td_description = None,
      td_fields = [\<lparr>field_name = ''a'', field_type = inputRef ''A'',
                    field_description = None, field_args = []\<rparr>]\<rparr>"

definition objectA :: type_def where
  "objectA =
     \<lparr>td_kind = ObjectKind, td_name = ''A'', td_description = None,
      td_fields = [\<lparr>field_name = ''b'', field_type = NonNullType (objectRef ''B''),
                    field_description = None, field_args = []\<rparr>]\<rparr>"

definition objectB :: type_def where
  "objectB =
     \<lparr>td_kind = ObjectKind, td_name = ''B'', td_description = None,
      td_fields = [\<lparr>field_name = ''a'', field_type = objectRef ''A'',
                    field_description = None, field_args = []\<rparr>]\<rparr>"

definition nameVar :: variable_def where
  "nameVar = \<lparr>var_name = ''name'', var_type = NON_NULL_TYPE (NAMED_TYPE ''String'')\<rparr>"

definition createUserField :: gql_field where
  "createUserField =
     \<lparr>field_name = ''createUser'', field_type = NamedType userType, field_description = None,
      field_args = [\<lparr>arg_name = ''name'', arg_type = NonNullType (NamedType stringType)\<rparr>]\<rparr>"



definition echoSearch :: "string option \<Rightarrow> (string \<times> string) list" where
  "echoSearch q = (if q = Some ''toString=x'' then [(''toString'', ''x'')] else [])"

definition shadowText :: string where
  "shadowText =
     ''{'' @ [CHR 0x22] @ ''hasOwnProperty'' @ [CHR 0x22] @ '':1,''
     @ [CHR 0x22] @ ''name'' @ [CHR 0x22] @ '':'' @ [CHR 0x22] @ ''Ann'' @ [CHR 0x22] @ ''}''"

definition shadowBody :: json where
  "shadowBody = JObj [(''hasOwnProperty'', JNum 1), (''name'', JStr ''Ann'')]"

definition shadowEnv :: "unit sofa_env" where
  "shadowEnv = exampleEnv\<lparr>JSON_parse := (\<lambda>s. if s = shadowText then Some shadowBody else None)\<rparr>"

definition createUserConfig :: handler_config where
  "createUserConfig =
     \<lparr>cfg_variables = [nameVar],
      cfg_operationName = Some ''createUserMutation'',
      cfg_route = \<lparr>rt_method = ''POST'', rt_path = ''/create-user'', rt_responseStatus = 200\<rparr>,
      cfg_fieldName = ''createUser''\<rparr>"

definition shadowRequest :: request where
  "shadowRequest = \<lparr>rq_url = ''http://localhost/create-user'', rq_body = Some shadowText,
                    rq_params = None\<rparr>"

section \<open>Properties of the error-handling policy\<close>

lemma assign_append: "assign t (a @ b) = assign (assign t a) b"
  by (induction a arbitrary: t) auto

lemma assign_keys: "fst ` set (assign t s) = fst ` set t \<union> fst ` set s"
proof (induction s arbitrary: t)
  case Nil
  then show ?case by simp
next
  case (Cons kv s)
  obtain k v where kv: "kv = (k, v)" by (cases kv)
  have "fst ` set (assign (AList.update k v t) s) = ({k} \<union> fst ` set t) \<union> fst ` set s"
    by (simp only: Cons.IH dom_update)
  then show ?case by (simp add: kv)
qed

text \<open>Where two sources give the same key, the later one wins.\<close>

lemma assign_lookup:
  "map_of (assign t s) k = (case map_of (rev s) k of Some v \<Rightarrow> Some v | None \<Rightarrow> map_of t k)"
proof (induction s arbitrary: t)
  case Nil
  then show ?case by simp
next
  case (Cons kv s)
  obtain k' v' where kv: "kv = (k', v')" by (cases kv)
  show ?case
    by (simp add: kv Cons.IH update_conv' map_add_def split: option.splits)
qed

lemma deleteHttp_no_hint: "httpOf (deleteHttp error) = None"
  by (cases error) (auto split: option.splits)

lemma deleteHttp_id: "httpOf error = None \<Longrightarrow> deleteHttp error = error"
  by (cases error) (auto split: option.splits)

lemma nextStatus_hint:
  "status \<noteq> Some 0 \<Longrightarrow> httpOf error = Some h \<Longrightarrow>
   nextStatus status h = maxStatus status (case statusHint error of None \<Rightarrow> [] | Some s \<Rightarrow> [s])"
  by (auto simp: nextStatus_def maxStatus_def statusHint_def split: option.splits)

lemma maxStatus_append:
  "maxStatus (maxStatus status a) b = maxStatus status (a @ b)"
  by (cases status) (auto simp: maxStatus_def Max_Un max.assoc intro: max.commute)

lemma maxStatus_nonzero:
  assumes "status \<noteq> Some 0" and "0 \<notin> set hints"
  shows "maxStatus status hints \<noteq> Some 0"
proof (cases "hints = []")
  case True
  with assms show ?thesis by (simp add: maxStatus_def)
next
  case False
  then have "Max (set hints) \<in> set hints" by (intro Max_in) auto
  with assms have m: "Max (set hints) \<noteq> 0" by metis
  show ?thesis
  proof (cases status)
    case None
    with False m show ?thesis by (simp add: maxStatus_def)
  next
    case (Some c)
    with assms have "c \<noteq> 0" by simp
    with Some False m show ?thesis by (simp add: maxStatus_def max_def)
  qed
qed

lemma statusHint_nonzero: "statusHint error = Some s \<Longrightarrow> s \<noteq> 0"
  by (auto simp: statusHint_def split: option.splits if_splits)

lemma hintedStatuses_Cons:
  "hintedStatuses (error # errors) =
     (case statusHint error of None \<Rightarrow> [] | Some s \<Rightarrow> [s]) @ hintedStatuses errors"
  by (simp add: hintedStatuses_def map_filter_simps split: option.splits)

lemma hintedStatuses_nonzero: "0 \<notin> set (hintedStatuses errors)"
proof (induction errors)
  case Nil
  then show ?case by (simp add: hintedStatuses_def map_filter_simps)
next
  case (Cons error errors)
  then show ?case
    using statusHint_nonzero [of error]
    by (cases "statusHint error") (simp_all add: hintedStatuses_Cons)
qed

lemma errorsLoop_result:
  "status \<noteq> Some 0 \<Longrightarrow>
   errorsLoop errors (status, headers, seen) =
     (maxStatus status (hintedStatuses errors), assign headers (hintedHeaders errors),
      seen @ map deleteHttp errors)"
proof (induction errors arbitrary: status headers seen)
  case Nil
  then show ?case by (simp add: maxStatus_def hintedStatuses_def hintedHeaders_def map_filter_simps)
next
  case (Cons error errors)
  show ?case
  proof (cases "httpOf error")
    case None
    then have hints: "statusHint error = None" "headerHint error = []"
      by (simp_all add: statusHint_def headerHint_def)
    have "errorsLoop (error # errors) (status, headers, seen) =
            errorsLoop errors (status, headers, seen @ [error])"
      using None by simp
    also have "\<dots> = (maxStatus status (hintedStatuses errors),
                      assign headers (hintedHeaders errors),
                      (seen @ [error]) @ map deleteHttp errors)"
      using Cons.prems by (rule Cons.IH)
    finally show ?thesis
      by (simp add: hints hintedStatuses_Cons hintedHeaders_def deleteHttp_id [OF None])
  next
    case (Some h)
    let ?one = "case statusHint error of None \<Rightarrow> [] | Some s \<Rightarrow> [s]"
    have st: "nextStatus status h = maxStatus status ?one"
      using Cons.prems Some by (rule nextStatus_hint)
    have "0 \<notin> set ?one"
      by (cases "statusHint error") (auto dest: statusHint_nonzero)
    with Cons.prems have nz: "maxStatus status ?one \<noteq> Some 0" by (rule maxStatus_nonzero)
    have hs: "nextHeaders headers h = assign headers (headerHint error)"
      using Some by (simp add: nextHeaders_def headerHint_def split: option.splits)
    have "errorsLoop (error # errors) (status, headers, seen) =
            errorsLoop errors (maxStatus status ?one, assign headers (headerHint error),
                               seen @ [deleteHttp error])"
      using Some st hs by simp
    also have "\<dots> = (maxStatus (maxStatus status ?one) (hintedStatuses errors),
                      assign (assign headers (headerHint error)) (hintedHeaders errors),
                      (seen @ [deleteHttp error]) @ map deleteHttp errors)"
      using nz by (rule Cons.IH)
    finally show ?thesis
      by (simp add: maxStatus_append hintedStatuses_Cons hintedHeaders_def assign_append)
  qed
qed

text \<open>
  C3. For every list of errors, the response of the default policy has as status the
  greatest status hinted by an error, 500 when no error hints one (a hint of 0 is none);
  its headers are Content-Type followed by the hinted header sets merged in the order of
  the errors, so that every hinted header name is among them; its body is the envelope of
  the errors, each without its \<open>http\<close> extension.
\<close>

theorem error_policy:
  "res_status (defaultErrorHandler errors) =
     (if hintedStatuses errors = [] then 500 else Max (set (hintedStatuses errors)))
   \<and> res_headers (defaultErrorHandler errors) =
       assign [(''Content-Type'', ''application/json; charset=utf-8'')] (hintedHeaders errors)
   \<and> fst ` set (res_headers (defaultErrorHandler errors)) =
       {''Content-Type''} \<union> fst ` set (hintedHeaders errors)
   \<and> res_body (defaultErrorHandler errors) = Errors (map deleteHttp errors)
   \<and> (\<forall>error \<in> set (map deleteHttp errors). httpOf error = None)"
proof -
  let ?ct = "[(''Content-Type'', ''application/json; charset=utf-8'')]"
  have loop: "errorsLoop errors (None, ?ct, []) =
      (maxStatus None (hintedStatuses errors), assign ?ct (hintedHeaders errors), map deleteHttp errors)"
    using errorsLoop_result [of None errors ?ct "[]"] by simp
  have nz: "0 \<notin> set (hintedStatuses errors)" by (rule hintedStatuses_nonzero)
  have "hintedStatuses errors \<noteq> [] \<Longrightarrow> Max (set (hintedStatuses errors)) \<in> set (hintedStatuses errors)"
    by (intro Max_in) auto
  with nz have m: "hintedStatuses errors \<noteq> [] \<Longrightarrow> Max (set (hintedStatuses errors)) \<noteq> 0" by metis
  have s: "res_status (defaultErrorHandler errors) =
     (if hintedStatuses errors = [] then 500 else Max (set (hintedStatuses errors)))"
    using m by (simp add: defaultErrorHandler_def loop maxStatus_def)
  have h: "res_headers (defaultErrorHandler errors) = assign ?ct (hintedHeaders errors)"
    by (simp add: defaultErrorHandler_def loop)
  have b: "res_body (defaultErrorHandler errors) = Errors (map deleteHttp errors)"
    by (simp add: defaultErrorHandler_def loop)
  have k: "fst ` set (res_headers (defaultErrorHandler errors)) =
       {''Content-Type''} \<union> fst ` set (hintedHeaders errors)"
    by (simp only: h assign_keys) simp
  have d: "\<forall>error \<in> set (map deleteHttp errors). httpOf error = None"
    by (auto simp: deleteHttp_no_hint)
  from s h k b d show ?thesis by (intro conjI)
qed

theorem error_policy_witness:
  "res_status (defaultErrorHandler [error400, error404]) = 404
   \<and> res_headers (defaultErrorHandler [error400, error404]) =
       [(''Content-Type'', ''application/json; charset=utf-8''),
        (''X-Reason'', ''input''), (''X-Missing'', ''user'')]
   \<and> res_body (defaultErrorHandler [error400, error404]) =
       Errors [ErrorObject \<lparr>err_message = ''Invalid parameters'',
                 err_extensions = Some \<lparr>ext_http = None, ext_other = []\<rparr>\<rparr>,
               ErrorObject \<lparr>err_message = ''Not found'',
                 err_extensions = Some \<lparr>ext_http = None, ext_other = [(''code'', JStr ''NOT_FOUND'')]\<rparr>\<rparr>]"
  using error_policy [of "[error400, error404]"]
  by (simp add: error400_def error404_def hintedStatuses_def hintedHeaders_def statusHint_def
      headerHint_def map_filter_simps)

section \<open>Properties of the routes\<close>

lemma isSingle_iff:
  "isSingle t \<longleftrightarrow> (\<exists>n. nt_kind n = ObjectKind \<and> (t = NamedType n \<or> t = NonNullType (NamedType n)))"
proof (cases t)
  case (NonNullType u)
  then show ?thesis by (cases u) (auto simp: isSingle_def)
next
  case (ListType u)
  then show ?thesis by (simp add: isSingle_def)
next
  case (NamedType n)
  then show ?thesis by (auto simp: isSingle_def)
qed

text \<open>
  C5. A root field with no entry in \<open>sofa.routes\<close>: as a query its route is GET, with
  the path \<open>/<name>/:id\<close> exactly when the type of the field is an object type, bare or
  under one non-null wrapper, and an argument of the field is named \<open>id\<close>, and
  \<open>/<name>\<close> otherwise; as a mutation its route is POST with the path \<open>/<name>\<close>. The
  response status is 200 in both. \<open><name>\<close> is \<open>convertName\<close> of the field's name.
\<close>

theorem default_routes:
  assumes "routes (typeName @ ''.'' @ field_name field) = None"
  shows "createQueryRoute convertName routes typeName field =
           \<lparr>rt_method = ''GET'',
            rt_path = (if isSingle (field_type field) \<and> hasIdArgument field
                       then ''/'' @ convertName (field_name field) @ ''/:id''
                       else ''/'' @ convertName (field_name field)),
            rt_responseStatus = 200\<rparr>
         \<and> (rt_path (createQueryRoute convertName routes typeName field) =
              ''/'' @ convertName (field_name field) @ ''/:id''
              \<longleftrightarrow> isSingle (field_type field) \<and> hasIdArgument field)
         \<and> (isSingle (field_type field) \<longleftrightarrow>
              (\<exists>n. nt_kind n = ObjectKind
                   \<and> (field_type field = NamedType n \<or> field_type field = NonNullType (NamedType n))))
         \<and> (hasIdArgument field \<longleftrightarrow> ''id'' \<in> arg_name ` set (field_args field))
         \<and> createMutationRoute convertName routes typeName field =
             \<lparr>rt_method = ''POST'', rt_path = ''/'' @ convertName (field_name field),
              rt_responseStatus = 200\<rparr>"
proof -
  have q: "createQueryRoute convertName routes typeName field =
           \<lparr>rt_method = ''GET'',
            rt_path = (if isSingle (field_type field) \<and> hasIdArgument field
                       then ''/'' @ convertName (field_name field) @ ''/:id''
                       else ''/'' @ convertName (field_name field)),
            rt_responseStatus = 200\<rparr>"
    using assms by (simp add: createQueryRoute_def getPath_def)
  have p: "rt_path (createQueryRoute convertName routes typeName field) =
              ''/'' @ convertName (field_name field) @ ''/:id''
              \<longleftrightarrow> isSingle (field_type field) \<and> hasIdArgument field"
    by (simp add: q)
  have h: "hasIdArgument field \<longleftrightarrow> ''id'' \<in> arg_name ` set (field_args field)"
    unfolding hasIdArgument_def image_iff by (rule bex_cong [OF refl]) (rule eq_commute)
  have m: "createMutationRoute convertName routes typeName field =
             \<lparr>rt_method = ''POST'', rt_path = ''/'' @ convertName (field_name field),
              rt_responseStatus = 200\<rparr>"
    using assms by (simp add: createMutationRoute_def getPath_def)
  show ?thesis
    by (intro conjI) (rule q, rule p, rule isSingle_iff, rule h, rule m)
qed

theorem default_routes_witness:
  "(Map.empty :: string \<rightharpoonup> route_config) (''Query'' @ ''.'' @ field_name userField) = None
   \<and> createQueryRoute (\<lambda>n. n) Map.empty ''Query'' userField =
     \<lparr>rt_method = ''GET'', rt_path = ''/user/:id'', rt_responseStatus = 200\<rparr>
   \<and> (Map.empty :: string \<rightharpoonup> route_config) (''Mutation'' @ ''.'' @ field_name userField) = None
   \<and> createMutationRoute (\<lambda>n. n) Map.empty ''Mutation'' userField =
     \<lparr>rt_method = ''POST'', rt_path = ''/user'', rt_responseStatus = 200\<rparr>"
proof -
  have q: "(Map.empty :: string \<rightharpoonup> route_config) (''Query'' @ ''.'' @ field_name userField) = None"
    by simp
  have m: "(Map.empty :: string \<rightharpoonup> route_config) (''Mutation'' @ ''.'' @ field_name userField) = None"
    by simp
  have single: "isSingle (field_type userField)" "hasIdArgument userField"
    by (simp_all add: userField_def userType_def isSingle_def hasIdArgument_def)
  from default_routes [OF q, of "\<lambda>n. n"] default_routes [OF m, of "\<lambda>n. n"] single q m
  show ?thesis by (simp add: userField_def)
qed

section \<open>Properties of the request handler\<close>

lemma split_no_sep: "sep \<notin> set s \<Longrightarrow> split sep s = [s]"
  by (induction s) auto


lemma defaultErrorHandler_single:
  "res_status (defaultErrorHandler [createGraphQLError msg 400]) = 400"
  by (simp add: defaultErrorHandler_def createGraphQLError_def nextStatus_def nextHeaders_def)








text \<open>
  What \<open>pickParam\<close> gives: the value \<open>params[name]\<close> when \<open>name in params\<close>; otherwise,
  from the query string (the text between the first and the second question mark of the
  url), the one value when the name occurs once and the list of the values in order when
  it occurs more often; otherwise, of a truthy body, what \<open>body.hasOwnProperty(name)\<close>
  throws, or the own property of that name when it answers true; otherwise \<open>undefined\<close>.
\<close>

lemma pickParam_sources:
  "(inObject name params \<longrightarrow> pickParam U msg name url params body = Inr (readProperty params name))
   \<and> (map_of params name = Some v \<longrightarrow> pickParam U msg name url params body = Inr (Some v))
   \<and> (\<not> inObject name params \<and> getAll (U (second (split CHR ''?'' url))) name = [x]
        \<longrightarrow> pickParam U msg name url params body = Inr (Some (JStr x)))
   \<and> (\<not> inObject name params \<and> 1 < length (getAll (U (second (split CHR ''?'' url))) name)
        \<longrightarrow> pickParam U msg name url params body
             = Inr (Some (JArr (map JStr (getAll (U (second (split CHR ''?'' url))) name)))))
   \<and> (\<not> inObject name params \<and> getAll (U (second (split CHR ''?'' url))) name = []
        \<and> truthy body
        \<longrightarrow> pickParam U msg name url params body
             = (case hasOwnProperty msg body name of
                  Inl error \<Rightarrow> Inl error
                | Inr own \<Rightarrow> Inr (if own then getProperty body name else None)))
   \<and> (\<not> inObject name params \<and> getAll (U (second (split CHR ''?'' url))) name = []
        \<and> \<not> truthy body
        \<longrightarrow> pickParam U msg name url params body = Inr None)"
  by (auto simp: pickParam_def Let_def inObject_def readProperty_def)

text \<open>
  C4 at a variable named \<open>toString\<close>, given in the query string of a request with no
  path parameter, and at a variable \<open>name\<close> given in a body that also has a key
  \<open>hasOwnProperty\<close>. In the first, \<open>name in params\<close> holds through the prototype chain
  and the value is the function \<open>Object.prototype.toString\<close>, not the value of the query
  string. In the second, \<open>body.hasOwnProperty\<close> is the number of the body, the call
  throws, and the request is answered with 400; the variable is not taken from the body.
\<close>

theorem inherited_name_and_shadowed_method:
  "getAll (echoSearch (second (split CHR ''?'' ''http://localhost/echo?toString=x''))) ''toString''
     = [''x'']
   \<and> pickParam echoSearch ''body.hasOwnProperty is not a function'' ''toString''
       ''http://localhost/echo?toString=x'' [] (JObj [])
     = Inr (Some (JMember ''toString''))
   \<and> getProperty shadowBody ''name'' = Some (JStr ''Ann'')
   \<and> pickParam (URLSearchParams shadowEnv) (notAFunction shadowEnv) ''name''
       ''http://localhost/create-user'' [] shadowBody
     = Inl (TypeError ''body.hasOwnProperty is not a function'')
   \<and> parseBody shadowEnv shadowRequest = Inr shadowBody
   \<and> res_status (useHandler shadowEnv createUserConfig shadowRequest) = 400"
proof -
  have q: "second (split CHR ''?'' ''http://localhost/echo?toString=x'') = Some ''toString=x''"
    by simp
  have 1: "getAll (echoSearch (second (split CHR ''?'' ''http://localhost/echo?toString=x'')))
             ''toString'' = [''x'']"
    by (simp only: q) (simp add: echoSearch_def getAll_def)
  have 2: "pickParam echoSearch ''body.hasOwnProperty is not a function'' ''toString''
       ''http://localhost/echo?toString=x'' [] (JObj [])
     = Inr (Some (JMember ''toString''))"
    by (simp add: pickParam_def inObject_def readProperty_def objectPrototype_def)
  have 3: "getProperty shadowBody ''name'' = Some (JStr ''Ann'')"
    by (simp add: shadowBody_def)
  have s: "split CHR ''?'' ''http://localhost/create-user'' = [''http://localhost/create-user'']"
    by (rule split_no_sep) simp
  have env: "URLSearchParams shadowEnv None = []"
    "notAFunction shadowEnv = ''body.hasOwnProperty is not a function''"
    by (simp_all add: shadowEnv_def exampleEnv_def)
  have 4: "pickParam (URLSearchParams shadowEnv) (notAFunction shadowEnv) ''name''
       ''http://localhost/create-user'' [] shadowBody
     = Inl (TypeError ''body.hasOwnProperty is not a function'')"
    by (simp add: pickParam_def inObject_def objectPrototype_def s env getAll_def
        hasOwnProperty_def shadowBody_def)
  have 5: "parseBody shadowEnv shadowRequest = Inr shadowBody"
    by (simp add: parseBody_def shadowRequest_def shadowEnv_def shadowText_def)
  have v: "resolveVariables shadowEnv (cfg_variables createUserConfig) shadowRequest shadowBody
             = Inl (createGraphQLError ''body.hasOwnProperty is not a function'' 400)"
    using 4
    by (simp add: resolveVariables_def createUserConfig_def nameVar_def shadowRequest_def
        errorMessage_def TypeError_def)
  have h: "errorHandler shadowEnv = None"
    by (simp add: shadowEnv_def exampleEnv_def)
  have 6: "res_status (useHandler shadowEnv createUserConfig shadowRequest) = 400"
    by (simp add: useHandler_def 5 v h defaultErrorHandler_single)
  from 1 2 3 4 5 6 show ?thesis by (intro conjI)
qed



section \<open>Properties of the batch\<close>

text \<open>An exception of the context factory or of the execution is answered by the error handler.\<close>

lemma useHandler_catches:
  assumes "parseBody env request = Inr body"
    and "resolveVariables env (cfg_variables config) request body = Inr vars"
  shows "contextFactory env request = Inl error \<Longrightarrow>
           useHandler env config request =
             (case errorHandler env of Some h \<Rightarrow> h | None \<Rightarrow> defaultErrorHandler) [error]"
    and "contextFactory env request = Inr ctx \<Longrightarrow>
         execute env \<lparr>contextValue = ctx, variableValues = vars,
                      operationName = cfg_operationName config\<rparr> = Inl error \<Longrightarrow>
           useHandler env config request =
             (case errorHandler env of Some h \<Rightarrow> h | None \<Rightarrow> defaultErrorHandler) [error]"
  using assms by (simp_all add: useHandler_def)


lemma promiseAll_Inr: "promiseAll ps = Inr vs \<Longrightarrow> ps = map Inr vs"
proof (induction ps arbitrary: vs)
  case Nil
  then show ?case by simp
next
  case (Cons p ps)
  then show ?case by (cases p) (auto split: sum.splits)
qed



text \<open>
  C9. A batch with more items than the limit is answered at once with the status 413,
  and no request is given to \<open>router.handle\<close>.
\<close>

theorem batch_over_limit:
  assumes "limit < int (length body)"
  shows "batchHandler env limit body =
     (Inr \<lparr>res_status = 413, res_statusText = Some ''Content Too Large'', res_headers = [],
           res_body = Json (Some (JObj [(''message'',
             JStr (''Batching is limited to '' @ numberText env limit
                   @ '' operations per request.''))]))\<rparr>,
      [])"
  using assms by (simp add: batchHandler_def)

theorem batch_over_limit_witness:
  "1 < int (length [usersItem, boomItem])
   \<and> batchHandler exampleBatchEnv 1 [usersItem, boomItem] =
     (Inr \<lparr>res_status = 413, res_statusText = Some ''Content Too Large'', res_headers = [],
           res_body = Json (Some (JObj [(''message'',
             JStr ''Batching is limited to 1 operations per request.'')]))\<rparr>,
      [])"
proof -
  have over: "1 < int (length [usersItem, boomItem])" by simp
  from batch_over_limit [OF over, of exampleBatchEnv] over show ?thesis
    by (simp add: exampleBatchEnv_def)
qed




section \<open>Properties of the component schemas\<close>

lemma fieldsLoop_required:
  "fst (fieldsLoop opts fs (required, properties)) =
     required @ map field_name (filter (\<lambda>f. isNonNullType (field_type f)) fs)"
  by (induction fs arbitrary: required properties) auto

lemma fieldsLoop_keys:
  "distinct (map field_name fs) \<Longrightarrow> set (map field_name fs) \<inter> fst ` set properties = {} \<Longrightarrow>
   map fst (snd (fieldsLoop opts fs (required, properties))) = map fst properties @ map field_name fs"
proof (induction fs arbitrary: required properties)
  case Nil
  then show ?case by simp
next
  case (Cons f fs)
  have notin: "field_name f \<notin> fst ` set properties" using Cons.prems(2) by auto
  let ?p = "AList.update (field_name f) (JObj (fieldProperty opts f)) properties"
  have keys: "map fst ?p = map fst properties @ [field_name f]"
    using notin by (simp add: update_keys)
  have "set (map field_name fs) \<inter> fst ` set ?p = {}"
    using Cons.prems by (auto simp: dom_update)
  with Cons.IH [of ?p] Cons.prems(1) keys show ?case by simp
qed

lemma fieldsLoop_later:
  "n \<notin> field_name ` set fs \<Longrightarrow>
   map_of (snd (fieldsLoop opts fs (required, properties))) n = map_of properties n"
  by (induction fs arbitrary: required properties) (auto simp: update_conv')

lemma fieldsLoop_lookup:
  "distinct (map field_name fs) \<Longrightarrow> f \<in> set fs \<Longrightarrow>
   map_of (snd (fieldsLoop opts fs (required, properties))) (field_name f)
     = Some (JObj (fieldProperty opts f))"
proof (induction fs arbitrary: required properties)
  case Nil
  then show ?case by simp
next
  case (Cons g fs)
  show ?case
  proof (cases "f \<in> set fs")
    case True
    with Cons show ?thesis by simp
  next
    case False
    then have fg: "f = g" using Cons.prems by simp
    from Cons.prems(1) have "field_name g \<notin> field_name ` set fs" by simp
    then show ?thesis using fg by (simp add: fieldsLoop_later update_conv')
  qed
qed

text \<open>
  C7. The component of a named object or input-object type, the names of its fields being
  distinct (they are the keys of \<open>type.getFields()\<close>): its \<open>properties\<close> has exactly the
  names of the fields as keys, in the order of declaration, each with the schema of its
  field; its \<open>required\<close> is the list of the names of the fields whose type is non-null, in
  the order of declaration, and is left out when there is none; so a field's name is in
  the required list exactly when its type is non-null.
\<close>

theorem component_fields:
  assumes "distinct (map field_name (td_fields ty))"
  shows "\<exists>properties.
     map_of (buildSchemaObjectFromType opts ty) ''properties'' = Some (JObj properties)
     \<and> map fst properties = map field_name (td_fields ty)
     \<and> (\<forall>f \<in> set (td_fields ty).
           map_of properties (field_name f) = Some (JObj (fieldProperty opts f)))
     \<and> map_of (buildSchemaObjectFromType opts ty) ''required'' =
         (if filter (\<lambda>f. isNonNullType (field_type f)) (td_fields ty) = [] then None
          else Some (JArr (map JStr (map field_name
                 (filter (\<lambda>f. isNonNullType (field_type f)) (td_fields ty))))))
     \<and> (\<forall>f \<in> set (td_fields ty).
           field_name f \<in> set (map field_name
                 (filter (\<lambda>f. isNonNullType (field_type f)) (td_fields ty)))
           \<longleftrightarrow> isNonNullType (field_type f))"
proof -
  let ?fs = "td_fields ty"
  let ?nn = "filter (\<lambda>f. isNonNullType (field_type f)) ?fs"
  obtain required properties where loop: "fieldsLoop opts ?fs ([], []) = (required, properties)"
    by (cases "fieldsLoop opts ?fs ([], [])")
  have req: "required = map field_name ?nn"
    using fieldsLoop_required [of opts ?fs "[]" "[]"] loop by simp
  have keys: "map fst properties = map field_name ?fs"
    using fieldsLoop_keys [of ?fs "[]" opts "[]"] assms loop by simp
  have look: "\<forall>f \<in> set ?fs. map_of properties (field_name f) = Some (JObj (fieldProperty opts f))"
    using fieldsLoop_lookup [of ?fs _ opts "[]" "[]"] assms loop by simp
  have p: "map_of (buildSchemaObjectFromType opts ty) ''properties'' = Some (JObj properties)"
    by (simp add: buildSchemaObjectFromType_def loop)
  have r: "map_of (buildSchemaObjectFromType opts ty) ''required'' =
         (if ?nn = [] then None else Some (JArr (map JStr (map field_name ?nn))))"
    by (simp add: buildSchemaObjectFromType_def loop req)
  have inj: "inj_on field_name (set ?fs)" using assms by (simp add: distinct_map)
  have iff: "\<forall>f \<in> set ?fs. field_name f \<in> set (map field_name ?nn)
           \<longleftrightarrow> isNonNullType (field_type f)"
  proof
    fix f assume f: "f \<in> set ?fs"
    show "field_name f \<in> set (map field_name ?nn) \<longleftrightarrow> isNonNullType (field_type f)"
    proof
      assume "field_name f \<in> set (map field_name ?nn)"
      then obtain g where g: "g \<in> set ?fs" "isNonNullType (field_type g)"
        "field_name g = field_name f" by auto
      with inj f have "g = f" by (auto dest: inj_onD)
      with g show "isNonNullType (field_type f)" by simp
    next
      assume "isNonNullType (field_type f)"
      with f show "field_name f \<in> set (map field_name ?nn)" by auto
    qed
  qed
  from p keys look r iff show ?thesis by blast
qed

theorem component_fields_witness:
  "distinct (map field_name (td_fields userDef))
   \<and> map_of (buildSchemaObjectFromType exampleOpts userDef) ''required'' = Some (JArr [JStr ''id''])
   \<and> (\<exists>properties.
         map_of (buildSchemaObjectFromType exampleOpts userDef) ''properties'' = Some (JObj properties)
         \<and> map fst properties = [''id'', ''name'', ''friend''])
   \<and> buildSchemaObjectFromType exampleOpts userDef =
       [(''type'', JStr ''object''),
        (''required'', JArr [JStr ''id'']),
        (''properties'', JObj [(''id'', JObj [(''type'', JStr ''string'')]),
                               (''name'', JObj [(''type'', JStr ''string'')]),
                               (''friend'', JObj [(''$ref'', JStr ''#/components/schemas/User'')])])]"
proof -
  have d: "distinct (map field_name (td_fields userDef))"
    by (simp add: userDef_def)
  have fs: "map field_name (td_fields userDef) = [''id'', ''name'', ''friend'']"
    "map field_name (filter (\<lambda>f. isNonNullType (field_type f)) (td_fields userDef)) = [''id'']"
    by (simp_all add: userDef_def idType_def stringType_def userType_def)
  from component_fields [OF d, of exampleOpts] obtain properties where
    p: "map_of (buildSchemaObjectFromType exampleOpts userDef) ''properties'' = Some (JObj properties)"
      "map fst properties = map field_name (td_fields userDef)"
    and r: "map_of (buildSchemaObjectFromType exampleOpts userDef) ''required'' =
         (if filter (\<lambda>f. isNonNullType (field_type f)) (td_fields userDef) = [] then None
          else Some (JArr (map JStr (map field_name
                 (filter (\<lambda>f. isNonNullType (field_type f)) (td_fields userDef))))))"
    by blast
  have nonempty: "filter (\<lambda>f. isNonNullType (field_type f)) (td_fields userDef) \<noteq> []"
    using fs(2) by auto
  have req: "map_of (buildSchemaObjectFromType exampleOpts userDef) ''required''
               = Some (JArr [JStr ''id''])"
    using r nonempty by (simp add: fs(2))
  have props: "\<exists>properties.
         map_of (buildSchemaObjectFromType exampleOpts userDef) ''properties'' = Some (JObj properties)
         \<and> map fst properties = [''id'', ''name'', ''friend'']"
    using p by (auto simp: fs(1))
  have whole: "buildSchemaObjectFromType exampleOpts userDef =
       [(''type'', JStr ''object''),
        (''required'', JArr [JStr ''id'']),
        (''properties'', JObj [(''id'', JObj [(''type'', JStr ''string'')]),
                               (''name'', JObj [(''type'', JStr ''string'')]),
                               (''friend'', JObj [(''$ref'', JStr ''#/components/schemas/User'')])])]"
    by (simp add: buildSchemaObjectFromType_def userDef_def exampleOpts_def fieldProperty_def
        resolveField_def addExampleFromDirective_def directiveExample_def isCustomScalar_def
        mapToPrimitive_def readProperty_def objectPrototype_def formatMap_def
        idType_def stringType_def userType_def ref_def mapToRef_def)
  from d req props whole show ?thesis by (intro conjI)
qed

text \<open>
  A field of an object type resolves to a reference, bare or under a non-null wrapper; a
  field of an input-object type falls through to the last branch. A variable of an
  input-object type, in \<open>resolveParamSchema\<close>, resolves to a reference.
\<close>

lemma resolveFieldType_object:
  "nt_kind n = ObjectKind \<Longrightarrow>
   resolveFieldType opts (NamedType n) = ref (nt_name n)
   \<and> resolveFieldType opts (NonNullType (NamedType n)) = ref (nt_name n)"
  by simp

lemma resolveFieldType_input_object:
  "nt_kind n = InputObjectKind \<Longrightarrow> \<not> isCustomScalar opts (nt_name n) \<Longrightarrow>
   resolveFieldType opts (NamedType n) = [(''type'', JStr ''object'')]"
  by simp

lemma resolveParamSchema_named:
  "\<not> isCustomScalar opts n \<Longrightarrow> mapToPrimitive n = None \<Longrightarrow> map_of (enumTypes opts) n = None \<Longrightarrow>
   resolveParamSchema opts (NAMED_TYPE n) = JObj (ref n)"
  by simp

text \<open>
  Each type of the type map is visited once: the components are those of its object,
  input-object and custom scalar types, in the order of the map.
\<close>

lemma componentsLoop_keys:
  "distinct (map td_name types) \<Longrightarrow> set (map td_name types) \<inter> fst ` set schemas = {} \<Longrightarrow>
   map fst (componentsLoop opts types schemas) =
     map fst schemas @ map td_name (filter (isComponentType opts) types)"
proof (induction types arbitrary: schemas)
  case Nil
  then show ?case by simp
next
  case (Cons ty types)
  have notin: "td_name ty \<notin> fst ` set schemas" using Cons.prems(2) by auto
  have d: "distinct (map td_name types)" using Cons.prems(1) by simp
  have fresh: "td_name ty \<notin> set (map td_name types)" using Cons.prems(1) by simp
  have disj: "set (map td_name types) \<inter> fst ` set schemas = {}" using Cons.prems(2) by auto
  show ?case
  proof (cases "isComponentType opts ty")
    case False
    then have "componentsLoop opts (ty # types) schemas = componentsLoop opts types schemas"
      by (auto simp: isComponentType_def)
    with False Cons.IH [OF d disj] show ?thesis by simp
  next
    case True
    define v where "v = (if td_kind ty = ObjectKind \<or> td_kind ty = InputObjectKind
                         then JObj (buildSchemaObjectFromType opts ty)
                         else customScalarComponent opts ty)"
    have step:
      "componentsLoop opts (ty # types) schemas =
         componentsLoop opts types (AList.update (td_name ty) v schemas)"
      using True by (auto simp: isComponentType_def v_def)
    have keys: "map fst (AList.update (td_name ty) v schemas) = map fst schemas @ [td_name ty]"
      using notin by (simp add: update_keys)
    have "set (map td_name types) \<inter> fst ` set (AList.update (td_name ty) v schemas) = {}"
      using disj fresh by (auto simp: dom_update)
    from Cons.IH [OF d this] True step keys show ?thesis by simp
  qed
qed

lemma object_cycle:
  "componentsLoop exampleOpts [objectA, objectB] [] =
     [(''A'', JObj [(''type'', JStr ''object''), (''required'', JArr [JStr ''b'']),
                    (''properties'', JObj [(''b'', JObj [(''$ref'', JStr ''#/components/schemas/B'')])])]),
      (''B'', JObj [(''type'', JStr ''object''),
                    (''properties'', JObj [(''a'', JObj [(''$ref'', JStr ''#/components/schemas/A'')])])])]"
  by (simp add: objectA_def objectB_def objectRef_def exampleOpts_def isIntrospectionType_def
      buildSchemaObjectFromType_def fieldProperty_def resolveField_def addExampleFromDirective_def
      directiveExample_def isCustomScalar_def readProperty_def objectPrototype_def ref_def
      mapToRef_def)

text \<open>
  C1 at two input-object types that refer to each other. The build ends, and each type
  gets one component, but the property of a field whose type is the other input type is
  the opaque \<open>{type: object}\<close> of the last branch of \<open>resolveFieldType\<close>, not a
  reference to the other component: the components do not refer to each other.
\<close>

theorem input_object_cycle:
  "componentsLoop exampleOpts [inputA, inputB] [] =
     [(''A'', JObj [(''type'', JStr ''object''), (''required'', JArr [JStr ''b'']),
                    (''properties'', JObj [(''b'', JObj [(''type'', JStr ''object'')])])]),
      (''B'', JObj [(''type'', JStr ''object''),
                    (''properties'', JObj [(''a'', JObj [(''type'', JStr ''object'')])])])]"
  by (simp add: inputA_def inputB_def inputRef_def exampleOpts_def isIntrospectionType_def
      buildSchemaObjectFromType_def fieldProperty_def resolveField_def addExampleFromDirective_def
      directiveExample_def isCustomScalar_def readProperty_def objectPrototype_def)

section \<open>Properties of the schemas of a route\<close>

text \<open>
  In \<open>getRouteSchemas\<close> the required list of either group has the names of its non-null
  variables, in order.
\<close>

lemma routeParamsLoop_required:
  "routeParamsLoop opts describe field path variables (params, query) = (params', query') \<Longrightarrow>
   pg_required params' = pg_required params
       @ map var_name (filter (\<lambda>v. isInPath path (var_name v) \<and> isNonNullNode (var_type v)) variables)
   \<and> pg_required query' = pg_required query
       @ map var_name (filter (\<lambda>v. \<not> isInPath path (var_name v) \<and> isNonNullNode (var_type v)) variables)"
proof (induction variables arbitrary: params query)
  case Nil
  then show ?case by simp
next
  case (Cons v vs)
  show ?case
  proof (cases "isInPath path (var_name v)")
    case True
    with Cons.prems have
      "routeParamsLoop opts describe field path vs
         (addParam (var_name v) (variableSchema opts describe field v) (isNonNullNode (var_type v)) params,
          query) = (params', query')"
      by (simp add: Let_def)
    from Cons.IH [OF this] True show ?thesis by (simp add: addParam_def)
  next
    case False
    with Cons.prems have
      "routeParamsLoop opts describe field path vs
         (params,
          addParam (var_name v) (variableSchema opts describe field v) (isNonNullNode (var_type v)) query)
       = (params', query')"
      by (simp add: Let_def)
    from Cons.IH [OF this] False show ?thesis by (simp add: addParam_def)
  qed
qed

text \<open>
  C6 at a mutation \<open>createUser(name: String!)\<close> on POST \<open>/create-user\<close>: the variable
  \<open>name\<close>, which is not in the path, is listed and required among the query parameters
  and again in the JSON body, so it has two locations. For the same route
  \<open>buildPathFromOperation\<close> lists no parameter and puts \<open>name\<close> in the body only.
\<close>

theorem post_variable_in_query_and_body:
  "getRouteSchemas exampleOpts (\<lambda>n. None) createUserField ''POST'' ''/create-user'' [nameVar] 200 =
     \<lparr>rs_json = Some [(''type'', JStr ''object''),
                      (''properties'', JObj [(''name'', JObj [(''type'', JStr ''string'')])]),
                      (''required'', JArr [JStr ''name''])],
      rs_params = \<lparr>pg_properties = [], pg_required = []\<rparr>,
      rs_query = \<lparr>pg_properties = [(''name'', JObj [(''type'', JStr ''string'')])],
                  pg_required = [''name'']\<rparr>,
      rs_responses = [(200, [(''$ref'', JStr ''#/components/schemas/User'')])]\<rparr>"
  by (simp add: getRouteSchemas_def nameVar_def createUserField_def exampleOpts_def
      variableSchema_def setDescription_def addParam_def isInPath_def useRequestBody_def
      resolveRequestBody_def resolveResponse_def isCustomScalar_def mapToPrimitive_def
      addExampleFromDirective_def directiveExample_def readProperty_def objectPrototype_def
      formatMap_def userType_def stringType_def ref_def mapToRef_def)

lemma sibling_classifies_once:
  "buildPathFromOperation exampleOpts (\<lambda>n. None) ''/create-user'' True (Some [nameVar]) =
     ([], Some [(''type'', JStr ''object''),
                (''properties'', JObj [(''name'', JObj [(''type'', JStr ''string'')])]),
                (''required'', JArr [JStr ''name''])])"
  by (simp add: buildPathFromOperation_def resolveParameters_def resolveRequestBody_def
      nameVar_def exampleOpts_def isInPath_def setDescription_def isCustomScalar_def
      mapToPrimitive_def readProperty_def objectPrototype_def formatMap_def)

lemma isInPath_prefix_of_token: "isInPath ''/user/:id'' ''i''"
  by (simp add: isInPath_def)

end
